theory Spec2Isabelle
  imports Main "HOL-Library.Sublist"
begin

section \<open>The form-login helper \<open>tools/multi_login.py\<close>\<close>

text \<open>
  The script is one straight-line program: fetch the login page, take its first form,
  build the field mapping, guess the credential fields, submit, judge the answer.
  The two libraries it calls are outside the script and are taken as parameters:
  the HTTP session (\<open>requests\<close>) as a function from the cookie jar and a request to
  either an exception or a response, and the HTML parser (\<open>bs4\<close>) as a function from
  the page text to the first form element, if any.

  Strings are \<open>string\<close>; \<open>str.lower\<close> is modelled on the ASCII letters, which is all
  that the comparisons of the script against \<open>post\<close>, \<open>logout\<close> and \<open>dashboard\<close> read.
  The fixed \<open>User-Agent\<close> header and the timeout of 15 are arguments of every request
  and are left out of the request values.
\<close>

subsection \<open>Data\<close>

text \<open>An \<open>input\<close> tag as the script reads it: \<open>inp.get("name")\<close>,
  \<open>inp.get("value")\<close> and the \<open>type\<close> attribute matched by \<open>find_all\<close>;
  \<open>None\<close> is an absent attribute.\<close>

record input_tag =
  inp_name :: "string option"
  inp_value :: "string option"
  inp_type :: "string option"

text \<open>A \<open>form\<close> tag: its \<open>action\<close> and \<open>method\<close> attributes and
  \<open>form.find_all("input")\<close>, the input tags below it in document order.\<close>

record form_tag =
  form_action :: "string option"
  form_method :: "string option"
  form_inputs :: "input_tag list"

text \<open>A key of the Python dict \<open>inputs\<close> is whatever \<open>.get("name")\<close> returned:
  a string, or \<open>None\<close>. The dict keeps insertion order, so it is an association
  list with distinct keys.\<close>

type_synonym py_key = "string option"
type_synonym py_dict = "(py_key \<times> string) list"

record cli_args =
  login_page :: string
  username :: string
  password :: string
  action :: "string option"

text \<open>The two calls the script makes on the session: \<open>session.get(url)\<close> or
  \<open>session.get(url, params=d)\<close>, and \<open>session.post(url, data=d)\<close>.\<close>

datatype request =
    SessionGet string "py_dict option"
  | SessionPost string py_dict

type_synonym cookie_jar = "(string \<times> string) list"

text \<open>The outside world. \<open>send jar req\<close> is the call on the session whose cookies are
  \<open>jar\<close>: \<open>Inl msg\<close> when it raises an exception that prints as \<open>msg\<close>, otherwise
  the response text and \<open>session.cookies.get_dict()\<close> after the call.
  \<open>soup_find_form text\<close> is \<open>BeautifulSoup(text, "html.parser").find("form")\<close>.\<close>

record world =
  send :: "cookie_jar \<Rightarrow> request \<Rightarrow> string + (string \<times> cookie_jar)"
  soup_find_form :: "string \<Rightarrow> form_tag option"

text \<open>What a run of the script leaves behind: the lines printed to standard output and
  to standard error, the exit code, and the requests issued, in order.\<close>

record outcome =
  out_stdout :: "string list"
  out_stderr :: "string list"
  out_exit :: int
  out_requests :: "request list"

subsection \<open>Strings and dicts of Python\<close>

text \<open>\<open>str.lower\<close> on one character: the 26 capital letters go to their small
  letters, every other character stays.\<close>

definition char_lower :: "char \<Rightarrow> char" where
  "char_lower c =
     (case map_of (zip ''ABCDEFGHIJKLMNOPQRSTUVWXYZ'' ''abcdefghijklmnopqrstuvwxyz'') c of
        None \<Rightarrow> c
      | Some l \<Rightarrow> l)"

definition lower :: "string \<Rightarrow> string" where
  "lower s = map char_lower s"

text \<open>\<open>sep.join(xs)\<close>.\<close>

fun join :: "string \<Rightarrow> string list \<Rightarrow> string" where
  "join sep [] = []"
| "join sep [x] = x"
| "join sep (x # y # ys) = x @ sep @ join sep (y # ys)"

text \<open>\<open>k in d\<close>, \<open>d.get(k)\<close> and \<open>d[k] = v\<close>: an assignment to a key already present
  keeps the key's place, a new key goes to the end.\<close>

definition dict_has :: "py_key \<Rightarrow> py_dict \<Rightarrow> bool" where
  "dict_has k d = (k \<in> set (map fst d))"

definition dict_get :: "py_dict \<Rightarrow> py_key \<Rightarrow> string option" where
  "dict_get d k = map_of d k"

fun dict_set :: "py_key \<Rightarrow> string \<Rightarrow> py_dict \<Rightarrow> py_dict" where
  "dict_set k v [] = [(k, v)]"
| "dict_set k v ((k', v') # d) =
     (if k' = k then (k, v) # d else (k', v') # dict_set k v d)"

text \<open>Python's truth value of \<open>x\<close> where \<open>x\<close> is \<open>None\<close> or a string, and
  \<open>x or y\<close> where \<open>y\<close> is a string.\<close>

definition truthy :: "string option \<Rightarrow> bool" where
  "truthy x = (case x of None \<Rightarrow> False | Some s \<Rightarrow> s \<noteq> [])"

definition py_or :: "string option \<Rightarrow> string \<Rightarrow> string" where
  "py_or x y = (case x of None \<Rightarrow> y | Some s \<Rightarrow> if s \<noteq> [] then s else y)"

subsection \<open>The field heuristic (lines 45 to 91)\<close>

text \<open>\<open>action = args.action or form.get("action") or args.login_page\<close>\<close>

definition choose_action :: "cli_args \<Rightarrow> form_tag \<Rightarrow> string" where
  "choose_action args form =
     py_or (action args) (py_or (form_action form) (login_page args))"

text \<open>\<open>method = form.get("method", "post").lower()\<close>\<close>

definition choose_method :: "form_tag \<Rightarrow> string" where
  "choose_method form =
     lower (case form_method form of None \<Rightarrow> ''post'' | Some m \<Rightarrow> m)"

text \<open>The loop of lines 47 to 53 over \<open>form.find_all("input")\<close>, with the dict so far.\<close>

fun build_inputs :: "input_tag list \<Rightarrow> py_dict \<Rightarrow> py_dict" where
  "build_inputs [] inputs = inputs"
| "build_inputs (inp # rest) inputs =
     (let name = inp_name inp in
      if \<not> truthy name then build_inputs rest inputs
      else
        let val = (case inp_value inp of None \<Rightarrow> '''' | Some v \<Rightarrow> v)
        in build_inputs rest (dict_set name val inputs))"

definition csrf_name_candidates :: "string list" where
  "csrf_name_candidates =
     [''csrf'', ''csrf_token'', ''_csrf'', ''authenticity_token'', ''token'']"

definition common_user_fields :: "string list" where
  "common_user_fields = [''username'', ''user'', ''email'', ''login'']"

definition common_pass_fields :: "string list" where
  "common_pass_fields = [''password'', ''pass'', ''pwd'']"

text \<open>Lines 57 to 62: a \<open>for\<close> with \<open>break\<close> and an \<open>else\<close> that yields
  \<open>None\<close>.\<close>

fun find_csrf_name :: "string list \<Rightarrow> py_dict \<Rightarrow> string option" where
  "find_csrf_name [] inputs = None"
| "find_csrf_name (k # ks) inputs =
     (if dict_has (Some k) inputs then Some k else find_csrf_name ks inputs)"

text \<open>Lines 67 to 78: the first candidate that is a key gets the credential, and the
  loop breaks.\<close>

fun inject_named :: "string list \<Rightarrow> string \<Rightarrow> py_dict \<Rightarrow> py_dict" where
  "inject_named [] cred inputs = inputs"
| "inject_named (f # fs) cred inputs =
     (if dict_has (Some f) inputs then dict_set (Some f) cred inputs
      else inject_named fs cred inputs)"

text \<open>\<open>any(k in inputs for k in cands)\<close>\<close>

definition any_in :: "string list \<Rightarrow> py_dict \<Rightarrow> bool" where
  "any_in cands inputs = list_ex (\<lambda>k. dict_has (Some k) inputs) cands"

text \<open>\<open>form.find_all("input", {"type": t})\<close>\<close>

definition find_all_type :: "string \<Rightarrow> form_tag \<Rightarrow> input_tag list" where
  "find_all_type t form = filter (\<lambda>inp. inp_type inp = Some t) (form_inputs form)"

text \<open>Lines 81 to 86 and 87 to 91: the assignment \<open>inputs[name] = cred\<close> is made
  with whatever \<open>.get("name")\<close> returned, \<open>None\<close> included.\<close>

definition inject_by_type ::
  "string list \<Rightarrow> string \<Rightarrow> form_tag \<Rightarrow> string \<Rightarrow> py_dict \<Rightarrow> py_dict" where
  "inject_by_type cands t form cred inputs =
     (if \<not> any_in cands inputs then
        (case find_all_type t form of
           [] \<Rightarrow> inputs
         | first # _ \<Rightarrow> dict_set (inp_name first) cred inputs)
      else inputs)"

text \<open>The credential injection of lines 64 to 91, in the order of the script.\<close>

definition inject_credentials :: "cli_args \<Rightarrow> form_tag \<Rightarrow> py_dict \<Rightarrow> py_dict" where
  "inject_credentials args form inputs0 =
     (let inputs1 = inject_named common_user_fields (username args) inputs0;
          inputs2 = inject_named common_pass_fields (password args) inputs1;
          inputs3 = inject_by_type common_user_fields ''text'' form (username args) inputs2;
          inputs4 = inject_by_type common_pass_fields ''password'' form (password args) inputs3
      in inputs4)"

text \<open>Lines 47 to 91: the variables \<open>csrf_name\<close> and \<open>inputs\<close> as they stand before
  the submission.\<close>

definition field_heuristic :: "cli_args \<Rightarrow> form_tag \<Rightarrow> string option \<times> py_dict" where
  "field_heuristic args form =
     (let inputs = build_inputs (form_inputs form) [];
          csrf_name = find_csrf_name csrf_name_candidates inputs;
          inputs = inject_credentials args form inputs
      in (csrf_name, inputs))"

text \<open>The same lines with the scan of lines 55 to 62 taken out.\<close>

definition field_heuristic_no_csrf :: "cli_args \<Rightarrow> form_tag \<Rightarrow> py_dict" where
  "field_heuristic_no_csrf args form =
     (let inputs = build_inputs (form_inputs form) [];
          inputs = inject_credentials args form inputs
      in inputs)"

subsection \<open>Submission and classification (lines 93 to 116)\<close>

text \<open>Lines 95 to 98: which call is made on the session.\<close>

definition submit_request :: "string \<Rightarrow> string \<Rightarrow> py_dict \<Rightarrow> request" where
  "submit_request method act inputs =
     (if method = ''post'' then SessionPost act inputs
      else SessionGet act (Some inputs))"

text \<open>\<open>"; ".join([f"{k}={v}" for k, v in cookies.items()])\<close>\<close>

definition cookie_str :: "cookie_jar \<Rightarrow> string" where
  "cookie_str cookies = join ''; '' (map (\<lambda>(k, v). k @ ''='' @ v) cookies)"

text \<open>Lines 104 to 116, after the requests \<open>reqs\<close>.\<close>

definition classify :: "request list \<Rightarrow> cookie_jar \<Rightarrow> string \<Rightarrow> outcome" where
  "classify reqs cookies text =
     (if cookies \<noteq> [] then
        \<lparr>out_stdout = [''OK cookie='' @ cookie_str cookies], out_stderr = [],
         out_exit = 0, out_requests = reqs\<rparr>
      else if sublist ''logout'' (lower text) \<or> sublist ''dashboard'' (lower text) then
        \<lparr>out_stdout = [''OK cookie=''], out_stderr = [],
         out_exit = 0, out_requests = reqs\<rparr>
      else
        \<lparr>out_stdout = [], out_stderr = [''ERROR: Login likely failed''],
         out_exit = 5, out_requests = reqs\<rparr>)"

subsection \<open>The script\<close>

definition fetch_request :: "cli_args \<Rightarrow> request" where
  "fetch_request args = SessionGet (login_page args) None"

definition main :: "world \<Rightarrow> cli_args \<Rightarrow> outcome" where
  "main w args =
     (case send w [] (fetch_request args) of
        Inl e \<Rightarrow>
          \<lparr>out_stdout = [], out_stderr = [''ERROR: Failed to fetch login page: '' @ e],
           out_exit = 2, out_requests = [fetch_request args]\<rparr>
      | Inr (text, jar) \<Rightarrow>
          (case soup_find_form w text of
             None \<Rightarrow>
               \<lparr>out_stdout = [], out_stderr = [''ERROR: No form found on login page''],
                out_exit = 3, out_requests = [fetch_request args]\<rparr>
           | Some form \<Rightarrow>
               (let act = choose_action args form;
                    method = choose_method form;
                    (csrf_name, inputs) = field_heuristic args form;
                    req = submit_request method act inputs
                in case send w jar req of
                     Inl e \<Rightarrow>
                       \<lparr>out_stdout = [],
                        out_stderr = [''ERROR: Login submission failed: '' @ e],
                        out_exit = 4, out_requests = [fetch_request args, req]\<rparr>
                   | Inr (body, cookies) \<Rightarrow>
                       classify [fetch_request args, req] cookies body)))"

text \<open>The script with lines 55 to 62 deleted.\<close>

definition main_no_csrf :: "world \<Rightarrow> cli_args \<Rightarrow> outcome" where
  "main_no_csrf w args =
     (case send w [] (fetch_request args) of
        Inl e \<Rightarrow>
          \<lparr>out_stdout = [], out_stderr = [''ERROR: Failed to fetch login page: '' @ e],
           out_exit = 2, out_requests = [fetch_request args]\<rparr>
      | Inr (text, jar) \<Rightarrow>
          (case soup_find_form w text of
             None \<Rightarrow>
               \<lparr>out_stdout = [], out_stderr = [''ERROR: No form found on login page''],
                out_exit = 3, out_requests = [fetch_request args]\<rparr>
           | Some form \<Rightarrow>
               (let act = choose_action args form;
                    method = choose_method form;
                    inputs = field_heuristic_no_csrf args form;
                    req = submit_request method act inputs
                in case send w jar req of
                     Inl e \<Rightarrow>
                       \<lparr>out_stdout = [],
                        out_stderr = [''ERROR: Login submission failed: '' @ e],
                        out_exit = 4, out_requests = [fetch_request args, req]\<rparr>
                   | Inr (body, cookies) \<Rightarrow>
                       classify [fetch_request args, req] cookies body)))"

subsection \<open>The field mapping in the words of the specification\<close>

text \<open>The pairs of name and declared value (the empty string when there is none) of the
  inputs that carry a non-empty name, in document order. \<open>build_inputs\<close> is compared
  with it below.\<close>

definition field_pairs :: "input_tag list \<Rightarrow> (py_key \<times> string) list" where
  "field_pairs inps =
     map (\<lambda>inp. (inp_name inp, case inp_value inp of None \<Rightarrow> '''' | Some v \<Rightarrow> v))
       (filter (\<lambda>inp. truthy (inp_name inp)) inps)"

subsection \<open>Example pages and runs\<close>

definition demo_args :: cli_args where
  "demo_args =
     \<lparr>login_page = ''http://host/login'', username = ''alice'', password = ''s3cret'',
      action = None\<rparr>"

text \<open>The same command line with \<open>--action=http://host/auth\<close>.\<close>

definition override_args :: cli_args where
  "override_args =
     \<lparr>login_page = ''http://host/login'', username = ''alice'', password = ''s3cret'',
      action = Some ''http://host/auth''\<rparr>"

text \<open>A login form with a hidden token, the two credential fields and an unnamed
  submit button.\<close>

definition demo_form :: form_tag where
  "demo_form =
     \<lparr>form_action = Some ''/session'', form_method = Some ''POST'',
      form_inputs =
        [\<lparr>inp_name = Some ''_csrf'', inp_value = Some ''tok123'', inp_type = Some ''hidden''\<rparr>,
         \<lparr>inp_name = Some ''username'', inp_value = Some '''', inp_type = Some ''text''\<rparr>,
         \<lparr>inp_name = Some ''password'', inp_value = Some '''', inp_type = Some ''password''\<rparr>,
         \<lparr>inp_name = None, inp_value = Some ''Sign in'', inp_type = Some ''submit''\<rparr>]\<rparr>"

text \<open>A search form: \<open>method="GET"\<close>, an empty \<open>action\<close>, one text box named
  \<open>q\<close>.\<close>

definition search_form :: form_tag where
  "search_form =
     \<lparr>form_action = Some '''', form_method = Some ''GET'',
      form_inputs =
        [\<lparr>inp_name = Some ''q'', inp_value = None, inp_type = Some ''text''\<rparr>]\<rparr>"

text \<open>A form whose token is a visible text box and whose only recognised field name
  is \<open>password\<close>.\<close>

definition token_form :: form_tag where
  "token_form =
     \<lparr>form_action = None, form_method = None,
      form_inputs =
        [\<lparr>inp_name = Some ''token'', inp_value = Some ''tok123'', inp_type = Some ''text''\<rparr>,
         \<lparr>inp_name = Some ''password'', inp_value = None, inp_type = Some ''password''\<rparr>]\<rparr>"

text \<open>A form whose text box and password box carry no \<open>name\<close> attribute.\<close>

definition unnamed_form :: form_tag where
  "unnamed_form =
     \<lparr>form_action = None, form_method = None,
      form_inputs =
        [\<lparr>inp_name = None, inp_value = None, inp_type = Some ''text''\<rparr>,
         \<lparr>inp_name = None, inp_value = None, inp_type = Some ''password''\<rparr>]\<rparr>"

text \<open>Inputs with a repeated name, an empty name and no name.\<close>

definition repeated_inputs :: "input_tag list" where
  "repeated_inputs =
     [\<lparr>inp_name = Some ''lang'', inp_value = Some ''en'', inp_type = Some ''hidden''\<rparr>,
      \<lparr>inp_name = Some '''', inp_value = Some ''x'', inp_type = Some ''text''\<rparr>,
      \<lparr>inp_name = Some ''user'', inp_value = None, inp_type = Some ''text''\<rparr>,
      \<lparr>inp_name = None, inp_value = Some ''y'', inp_type = Some ''text''\<rparr>,
      \<lparr>inp_name = Some ''lang'', inp_value = Some ''fr'', inp_type = Some ''hidden''\<rparr>]"

text \<open>A world that answers the page fetch with \<open>fetched\<close>, parses every page to
  \<open>form\<close> and answers the submission with \<open>submitted\<close>.\<close>

definition demo_world ::
  "(string + string \<times> cookie_jar) \<Rightarrow> form_tag option \<Rightarrow> (string + string \<times> cookie_jar)
     \<Rightarrow> world" where
  "demo_world fetched form submitted =
     \<lparr>send = (\<lambda>jar req. if req = SessionGet ''http://host/login'' None then fetched
                        else submitted),
      soup_find_form = (\<lambda>text. form)\<rparr>"

section \<open>Properties\<close>

subsection \<open>Dicts\<close>

lemma dict_has_Nil: "dict_has k [] = False"
  by (simp add: dict_has_def)

lemma dict_has_Cons: "dict_has k (p # d) = (k = fst p \<or> dict_has k d)"
  by (simp add: dict_has_def)

lemma dict_get_set:
  "dict_get (dict_set k v d) k' = (if k' = k then Some v else dict_get d k')"
  by (induction d) (auto simp: dict_get_def)

lemma keys_dict_set_present: "dict_has k d \<Longrightarrow> map fst (dict_set k v d) = map fst d"
  by (induction d) (auto simp: dict_has_Nil dict_has_Cons)

lemma keys_dict_set_absent:
  "\<not> dict_has k d \<Longrightarrow> map fst (dict_set k v d) = map fst d @ [k]"
  by (induction d) (auto simp: dict_has_Nil dict_has_Cons)

lemma dict_has_set: "dict_has k' (dict_set k v d) = (k' = k \<or> dict_has k' d)"
  by (induction d) (auto simp: dict_has_Nil dict_has_Cons split: if_splits)

lemma distinct_dict_set:
  "distinct (map fst d) \<Longrightarrow> distinct (map fst (dict_set k v d))"
  by (cases "dict_has k d")
    (auto simp: keys_dict_set_present keys_dict_set_absent dict_has_def)

subsection \<open>The named-candidate loops\<close>

lemma keys_inject_named: "map fst (inject_named cs v d) = map fst d"
  by (induction cs) (auto simp: keys_dict_set_present)

lemma dict_has_inject_named: "dict_has k (inject_named cs v d) = dict_has k d"
  by (simp add: dict_has_def keys_inject_named)

lemma any_in_inject_named: "any_in cs' (inject_named cs v d) = any_in cs' d"
  by (simp add: any_in_def dict_has_inject_named)

lemma inject_named_other:
  "k \<notin> Some ` set cs \<Longrightarrow> dict_get (inject_named cs v d) k = dict_get d k"
  by (induction cs) (auto simp: dict_get_set)

lemma inject_by_type_skip: "any_in cs d \<Longrightarrow> inject_by_type cs t form v d = d"
  by (simp add: inject_by_type_def)

subsection \<open>Substrings under a character map\<close>

lemma sublist_map_iff:
  "sublist x (map f t) \<longleftrightarrow> (\<exists>ps m ss. t = ps @ m @ ss \<and> map f m = x)"
proof
  assume "sublist x (map f t)"
  then obtain a b where ab: "map f t = a @ x @ b" by (auto simp: sublist_def)
  define m where "m = take (length x) (drop (length a) t)"
  have "map f m = take (length x) (drop (length a) (map f t))"
    by (simp add: m_def take_map drop_map)
  also have "\<dots> = x" by (simp add: ab)
  finally have 1: "map f m = x" .
  have "m @ drop (length x) (drop (length a) t) = drop (length a) t"
    unfolding m_def by (rule append_take_drop_id)
  then have "take (length a) t @ m @ drop (length x) (drop (length a) t)
      = take (length a) t @ drop (length a) t"
    by (rule arg_cong)
  also have "\<dots> = t" by (rule append_take_drop_id)
  finally have 2: "t = take (length a) t @ m @ drop (length x) (drop (length a) t)"
    by (rule sym)
  from 1 2 show "\<exists>ps m ss. t = ps @ m @ ss \<and> map f m = x" by blast
next
  assume "\<exists>ps m ss. t = ps @ m @ ss \<and> map f m = x"
  then obtain ps m ss where "t = ps @ m @ ss" "map f m = x" by blast
  then have "map f t = map f ps @ x @ map f ss" by simp
  then show "sublist x (map f t)" unfolding sublist_def by blast
qed

subsection \<open>The loop that builds the field mapping\<close>

lemma map_of_dict_set: "map_of (dict_set k v d) = (map_of d)(k \<mapsto> v)"
  by (rule ext) (use dict_get_set [of k v d] in \<open>simp add: dict_get_def\<close>)

lemma dict_get_build_inputs:
  "dict_get (build_inputs inps d) k = map_of (rev (field_pairs inps) @ d) k"
proof (induction inps arbitrary: d)
  case Nil
  then show ?case by (simp add: field_pairs_def dict_get_def)
next
  case (Cons inp rest)
  show ?case
  proof (cases "truthy (inp_name inp)")
    case False
    with Cons show ?thesis by (simp add: field_pairs_def)
  next
    case True
    with Cons [of "dict_set (inp_name inp) (case inp_value inp of None \<Rightarrow> [] | Some v \<Rightarrow> v) d"]
    show ?thesis
      by (simp add: field_pairs_def Let_def map_of_dict_set map_add_def split: option.split)
  qed
qed

lemma dict_has_build_inputs:
  "dict_has k (build_inputs inps d) \<longleftrightarrow>
     dict_has k d \<or> (\<exists>inp \<in> set inps. inp_name inp = k \<and> truthy k)"
  by (induction inps arbitrary: d) (auto simp: Let_def dict_has_set)

lemma remdups_snoc_member: "k \<in> set ys \<Longrightarrow> remdups (xs @ k # ys) = remdups (xs @ ys)"
  by (induction xs) auto

lemma keys_build_inputs:
  "distinct (map fst d) \<Longrightarrow>
   map fst (build_inputs inps d) = rev (remdups (rev (map fst d @ map fst (field_pairs inps))))"
proof (induction inps arbitrary: d)
  case Nil
  then show ?case by (simp add: field_pairs_def distinct_remdups_id)
next
  case (Cons inp rest)
  show ?case
  proof (cases "truthy (inp_name inp)")
    case False
    with Cons show ?thesis by (simp add: field_pairs_def)
  next
    case True
    let ?v = "case inp_value inp of None \<Rightarrow> [] | Some v \<Rightarrow> v"
    let ?d = "dict_set (inp_name inp) ?v d"
    have fp: "field_pairs (inp # rest) = (inp_name inp, ?v) # field_pairs rest"
      using True by (simp add: field_pairs_def)
    have "map fst (build_inputs (inp # rest) d) = map fst (build_inputs rest ?d)"
      using True by (simp add: Let_def)
    also have "\<dots> = rev (remdups (rev (map fst ?d @ map fst (field_pairs rest))))"
      using Cons.prems by (intro Cons.IH distinct_dict_set)
    also have "\<dots> = rev (remdups (rev (map fst d @ map fst (field_pairs (inp # rest)))))"
    proof (cases "dict_has (inp_name inp) d")
      case True
      then have "inp_name inp \<in> set (rev (map fst d))" by (simp add: dict_has_def)
      from remdups_snoc_member [OF this, of "rev (map fst (field_pairs rest))"] True
      show ?thesis by (simp add: keys_dict_set_present fp)
    next
      case False
      then show ?thesis by (simp add: keys_dict_set_absent fp)
    qed
    finally show ?thesis .
  qed
qed

lemma field_pairs_append: "field_pairs (xs @ ys) = field_pairs xs @ field_pairs ys"
  by (simp add: field_pairs_def)

lemma field_pairs_keys: "fst ` set (field_pairs xs) \<subseteq> inp_name ` set xs"
  by (auto simp: field_pairs_def)

lemma last_named_wins:
  assumes "inps = pre @ inp # post"
    and "inp_name inp = Some name" and "name \<noteq> []"
    and "\<forall>later \<in> set post. inp_name later \<noteq> Some name"
  shows "dict_get (build_inputs inps []) (Some name)
           = Some (case inp_value inp of None \<Rightarrow> [] | Some v \<Rightarrow> v)"
proof -
  have "Some name \<notin> fst ` set (field_pairs post)"
    using assms(4) field_pairs_keys [of post] by auto
  then have none: "map_of (rev (field_pairs post)) (Some name) = None"
    by (simp add: map_of_eq_None_iff)
  have "field_pairs (inp # post)
      = (Some name, case inp_value inp of None \<Rightarrow> [] | Some v \<Rightarrow> v) # field_pairs post"
    using assms(2,3) by (simp add: field_pairs_def truthy_def)
  then have "rev (field_pairs inps)
      = rev (field_pairs post)
        @ (Some name, case inp_value inp of None \<Rightarrow> [] | Some v \<Rightarrow> v) # rev (field_pairs pre)"
    using field_pairs_append [of pre "inp # post"] by (simp add: assms(1))
  then show ?thesis
    using none by (simp add: dict_get_build_inputs map_add_def)
qed

text \<open>C8: the field mapping is built from the form's inputs in document order. A key
  is looked up as in the list of pairs (name, declared value or the empty string) of the
  inputs with a non-empty name, read from the last pair backwards, so a later input
  overwrites an earlier one of the same name; the keys stand in the order of their first
  occurrence; the keys are exactly the non-empty names, so an input without a name (or
  with an empty one) adds nothing; and the value under a name is the declared value of
  the last input of that name, the empty string when it declares none.\<close>

theorem build_inputs_field_mapping:
  "dict_get (build_inputs inps []) k = map_of (rev (field_pairs inps)) k
   \<and> map fst (build_inputs inps []) = rev (remdups (rev (map fst (field_pairs inps))))
   \<and> (dict_has k (build_inputs inps []) \<longleftrightarrow>
        k \<noteq> None \<and> k \<noteq> Some [] \<and> (\<exists>inp \<in> set inps. inp_name inp = k))
   \<and> (\<forall>pre inp post name.
         inps = pre @ inp # post \<and> inp_name inp = Some name \<and> name \<noteq> []
           \<and> (\<forall>later \<in> set post. inp_name later \<noteq> Some name) \<longrightarrow>
         dict_get (build_inputs inps []) (Some name)
           = Some (case inp_value inp of None \<Rightarrow> [] | Some v \<Rightarrow> v))"
proof (intro conjI)
  show "dict_get (build_inputs inps []) k = map_of (rev (field_pairs inps)) k"
    by (simp add: dict_get_build_inputs)
  show "map fst (build_inputs inps []) = rev (remdups (rev (map fst (field_pairs inps))))"
    using keys_build_inputs [of "[]" inps] by simp
  show "dict_has k (build_inputs inps []) \<longleftrightarrow>
        k \<noteq> None \<and> k \<noteq> Some [] \<and> (\<exists>inp \<in> set inps. inp_name inp = k)"
    by (cases k) (auto simp: dict_has_build_inputs dict_has_Nil truthy_def)
  show "\<forall>pre inp post name.
         inps = pre @ inp # post \<and> inp_name inp = Some name \<and> name \<noteq> []
           \<and> (\<forall>later \<in> set post. inp_name later \<noteq> Some name) \<longrightarrow>
         dict_get (build_inputs inps []) (Some name)
           = Some (case inp_value inp of None \<Rightarrow> [] | Some v \<Rightarrow> v)"
    using last_named_wins by blast
qed

theorem build_inputs_field_mapping_witness:
  "repeated_inputs = take 4 repeated_inputs @ repeated_inputs ! 4 # []
   \<and> inp_name (repeated_inputs ! 4) = Some ''lang''
   \<and> inp_name (repeated_inputs ! 0) = Some ''lang''
   \<and> dict_get (build_inputs repeated_inputs []) (Some ''lang'') = Some ''fr''
   \<and> build_inputs repeated_inputs [] = [(Some ''lang'', ''fr''), (Some ''user'', [])]
   \<and> field_pairs repeated_inputs
       = [(Some ''lang'', ''en''), (Some ''user'', []), (Some ''lang'', ''fr'')]
   \<and> map fst (build_inputs repeated_inputs []) = [Some ''lang'', Some ''user'']
   \<and> dict_has (Some ''lang'') (build_inputs repeated_inputs [])
   \<and> \<not> dict_has None (build_inputs repeated_inputs [])
   \<and> \<not> dict_has (Some []) (build_inputs repeated_inputs [])"
proof -
  have sp: "repeated_inputs = take 4 repeated_inputs @ repeated_inputs ! 4 # []"
    and l4: "inp_name (repeated_inputs ! 4) = Some ''lang''"
    and l0: "inp_name (repeated_inputs ! 0) = Some ''lang''"
    and val: "inp_value (repeated_inputs ! 4) = Some ''fr''"
    by (simp_all add: repeated_inputs_def)
  have fp: "field_pairs repeated_inputs
       = [(Some ''lang'', ''en''), (Some ''user'', []), (Some ''lang'', ''fr'')]"
    by (simp add: field_pairs_def repeated_inputs_def truthy_def)
  have b: "build_inputs repeated_inputs [] = [(Some ''lang'', ''fr''), (Some ''user'', [])]"
    by (simp add: repeated_inputs_def truthy_def)
  have mem: "\<exists>inp \<in> set repeated_inputs. inp_name inp = Some ''lang''"
    by (simp add: repeated_inputs_def)
  note inst = build_inputs_field_mapping [of repeated_inputs]
  from inst [of "Some ''lang''"] sp l4
  have "dict_get (build_inputs repeated_inputs []) (Some ''lang'')
      = Some (case inp_value (repeated_inputs ! 4) of None \<Rightarrow> [] | Some v \<Rightarrow> v)"
    by (metis empty_iff list.discI list.set(1))
  then have got: "dict_get (build_inputs repeated_inputs []) (Some ''lang'') = Some ''fr''"
    by (simp add: val)
  from inst [of "Some ''lang''"] inst [of None] inst [of "Some []"] mem fp
  have "map fst (build_inputs repeated_inputs []) = [Some ''lang'', Some ''user'']
    \<and> dict_has (Some ''lang'') (build_inputs repeated_inputs [])
    \<and> \<not> dict_has None (build_inputs repeated_inputs [])
    \<and> \<not> dict_has (Some []) (build_inputs repeated_inputs [])"
    by simp
  with sp l4 l0 got b fp show ?thesis by simp
qed

subsection \<open>The requests of a run that reaches the submission\<close>

lemma out_requests_classify: "out_requests (classify reqs cookies body) = reqs"
  by (simp add: classify_def)

lemma main_requests:
  assumes "send w [] (fetch_request args) = Inr (text, jar)"
    and "soup_find_form w text = Some form"
  shows "out_requests (main w args) =
     [fetch_request args,
      submit_request (choose_method form) (choose_action args form)
        (snd (field_heuristic args form))]"
  using assms
  by (simp add: main_def Let_def out_requests_classify split: prod.split sum.split)

text \<open>The equations that evaluate a run on the example pages.\<close>

lemmas run_defs = main_def demo_world_def demo_args_def override_args_def demo_form_def
  token_form_def unnamed_form_def search_form_def fetch_request_def choose_action_def
  choose_method_def py_or_def field_heuristic_def inject_credentials_def inject_by_type_def
  find_all_type_def any_in_def common_user_fields_def common_pass_fields_def
  csrf_name_candidates_def dict_has_def dict_get_def truthy_def submit_request_def
  classify_def cookie_str_def lower_def char_lower_def Let_def

subsection \<open>Credentials under the recognised names\<close>

lemma inject_credentials_named:
  assumes "dict_has (Some ''username'') d" and "dict_has (Some ''password'') d"
  shows "inject_credentials args form d
     = dict_set (Some ''password'') (password args)
         (dict_set (Some ''username'') (username args) d)"
  using assms
  by (simp add: inject_credentials_def common_user_fields_def common_pass_fields_def
      inject_by_type_def any_in_def dict_has_set Let_def)

text \<open>C1: when the first form of the fetched page has an input named \<open>username\<close>
  and an input named \<open>password\<close> (whatever their default values, the empty ones
  included), the payload of the submission request maps \<open>username\<close> to the user name of
  the command line and \<open>password\<close> to its password, every other key has the value it
  got when the mapping was built, and the keys and their order are those of the mapping
  as built.\<close>

theorem named_credentials_injected:
  assumes "send w [] (fetch_request args) = Inr (text, jar)"
    and "soup_find_form w text = Some form"
    and "\<exists>inp \<in> set (form_inputs form). inp_name inp = Some ''username''"
    and "\<exists>inp \<in> set (form_inputs form). inp_name inp = Some ''password''"
  shows "\<exists>payload.
      out_requests (main w args)
        = [fetch_request args,
           submit_request (choose_method form) (choose_action args form) payload]
    \<and> dict_get payload (Some ''username'') = Some (username args)
    \<and> dict_get payload (Some ''password'') = Some (password args)
    \<and> (\<forall>k. k \<noteq> Some ''username'' \<and> k \<noteq> Some ''password'' \<longrightarrow>
          dict_get payload k = dict_get (build_inputs (form_inputs form) []) k)
    \<and> map fst payload = map fst (build_inputs (form_inputs form) [])"
proof -
  let ?built = "build_inputs (form_inputs form) []"
  let ?payload = "dict_set (Some ''password'') (password args)
         (dict_set (Some ''username'') (username args) ?built)"
  have u: "dict_has (Some ''username'') ?built" and p: "dict_has (Some ''password'') ?built"
    using assms(3,4) by (auto simp: dict_has_build_inputs truthy_def)
  have "snd (field_heuristic args form) = ?payload"
    using inject_credentials_named [OF u p] by (simp add: field_heuristic_def Let_def)
  with main_requests [OF assms(1,2)]
  have "out_requests (main w args)
        = [fetch_request args,
           submit_request (choose_method form) (choose_action args form) ?payload]"
    by simp
  moreover have "dict_get ?payload (Some ''username'') = Some (username args)"
    and "dict_get ?payload (Some ''password'') = Some (password args)"
    and "\<forall>k. k \<noteq> Some ''username'' \<and> k \<noteq> Some ''password'' \<longrightarrow>
          dict_get ?payload k = dict_get ?built k"
    by (simp_all add: dict_get_set)
  moreover have "map fst ?payload = map fst ?built"
    using u p by (simp add: keys_dict_set_present dict_has_set)
  ultimately show ?thesis by blast
qed

theorem named_credentials_injected_witness:
  "inp_name (form_inputs demo_form ! 1) = Some ''username''
   \<and> inp_name (form_inputs demo_form ! 2) = Some ''password''
   \<and> build_inputs (form_inputs demo_form) []
       = [(Some ''_csrf'', ''tok123''), (Some ''username'', []), (Some ''password'', [])]
   \<and> out_requests (main (demo_world (Inr (''<html>'', [])) (Some demo_form)
         (Inr (''Welcome'', [(''sessionid'', ''abc123'')]))) demo_args)
       = [SessionGet ''http://host/login'' None,
          SessionPost ''/session''
            [(Some ''_csrf'', ''tok123''), (Some ''username'', ''alice''),
             (Some ''password'', ''s3cret'')]]"
proof -
  let ?w = "demo_world (Inr (''<html>'', [])) (Some demo_form)
         (Inr (''Welcome'', [(''sessionid'', ''abc123'')]))"
  have h1: "send ?w [] (fetch_request demo_args) = Inr (''<html>'', [])"
    and h2: "soup_find_form ?w ''<html>'' = Some demo_form"
    and h3: "\<exists>inp \<in> set (form_inputs demo_form). inp_name inp = Some ''username''"
    and h4: "\<exists>inp \<in> set (form_inputs demo_form). inp_name inp = Some ''password''"
    by (simp_all add: run_defs)
  have built: "build_inputs (form_inputs demo_form) []
       = [(Some ''_csrf'', ''tok123''), (Some ''username'', []), (Some ''password'', [])]"
    by (simp add: run_defs)
  from named_credentials_injected [OF h1 h2 h3 h4] obtain payload where
    req: "out_requests (main ?w demo_args)
        = [fetch_request demo_args,
           submit_request (choose_method demo_form) (choose_action demo_args demo_form)
             payload]"
    and u: "dict_get payload (Some ''username'') = Some (username demo_args)"
    and p: "dict_get payload (Some ''password'') = Some (password demo_args)"
    and other: "\<forall>k. k \<noteq> Some ''username'' \<and> k \<noteq> Some ''password'' \<longrightarrow>
          dict_get payload k = dict_get (build_inputs (form_inputs demo_form) []) k"
    and keys: "map fst payload = map fst (build_inputs (form_inputs demo_form) [])"
    by blast
  from other have c: "dict_get payload (Some ''_csrf'') = Some ''tok123''"
    by (simp add: built dict_get_def)
  from keys obtain v1 v2 v3 where
    "payload = [(Some ''_csrf'', v1), (Some ''username'', v2), (Some ''password'', v3)]"
    by (auto simp: built map_eq_Cons_conv)
  with u p c have "payload
      = [(Some ''_csrf'', ''tok123''), (Some ''username'', ''alice''),
         (Some ''password'', ''s3cret'')]"
    by (simp add: dict_get_def demo_args_def)
  with req have "out_requests (main ?w demo_args)
       = [SessionGet ''http://host/login'' None,
          SessionPost ''/session''
            [(Some ''_csrf'', ''tok123''), (Some ''username'', ''alice''),
             (Some ''password'', ''s3cret'')]]"
    by (simp add: fetch_request_def submit_request_def choose_method_def choose_action_def
        py_or_def demo_form_def demo_args_def lower_def char_lower_def)
  with built show ?thesis by (simp add: demo_form_def)
qed

subsection \<open>The value under the token name\<close>

lemma find_csrf_name_Some:
  "find_csrf_name cs d = Some c \<Longrightarrow> c \<in> set cs \<and> dict_has (Some c) d"
  by (induction cs) (auto split: if_splits)

lemma any_in_dict_set:
  "any_in cs (dict_set k v d) \<longleftrightarrow> any_in cs d \<or> k \<in> Some ` set cs"
  by (auto simp: any_in_def list_ex_iff dict_has_set)

lemma any_in_iff: "any_in cs d \<longleftrightarrow> (\<exists>c \<in> set cs. dict_has (Some c) d)"
  by (simp add: any_in_def list_ex_iff)

lemma find_all_type_first:
  "find_all_type t form = first # rest \<Longrightarrow> first \<in> set (form_inputs form)"
  by (metis find_all_type_def filter_is_subset list.set_intros(1) subsetD)

lemma dict_get_inject_by_type:
  "dict_get (inject_by_type cs t form v d) k =
     (if \<not> any_in cs d
         \<and> (case find_all_type t form of [] \<Rightarrow> False | first # _ \<Rightarrow> inp_name first = k)
      then Some v else dict_get d k)"
  by (simp add: inject_by_type_def dict_get_set split: list.split)

text \<open>The fallback for one credential does not change whether a candidate name of the
  other is a key: a string key it adds is the name of an input of the form, and a named
  input is a key of the mapping from the start.\<close>

lemma any_in_inject_by_type:
  assumes "\<forall>inp \<in> set (form_inputs form). truthy (inp_name inp) \<longrightarrow> dict_has (inp_name inp) d"
    and "[] \<notin> set cs'"
  shows "any_in cs' (inject_by_type cs t form v d) = any_in cs' d"
proof (cases "\<not> any_in cs d \<and> find_all_type t form \<noteq> []")
  case False
  then show ?thesis by (auto simp: inject_by_type_def split: list.split)
next
  case True
  then obtain first rest where fr: "find_all_type t form = first # rest"
    by (cases "find_all_type t form") auto
  with True have eq: "inject_by_type cs t form v d = dict_set (inp_name first) v d"
    by (simp add: inject_by_type_def)
  have "any_in cs' d" if "inp_name first \<in> Some ` set cs'"
  proof -
    from that obtain c where c: "c \<in> set cs'" "inp_name first = Some c" by auto
    with assms(2) have "truthy (inp_name first)" by (auto simp: truthy_def)
    with assms(1) find_all_type_first [OF fr] have "dict_has (Some c) d" using c(2) by auto
    with c(1) show ?thesis by (auto simp: any_in_iff)
  qed
  then show ?thesis by (auto simp: eq any_in_dict_set)
qed

lemma payload_at_csrf_name:
  assumes "find_csrf_name csrf_name_candidates (build_inputs (form_inputs form) []) = Some c"
  shows "dict_get (snd (field_heuristic args form)) (Some c) =
       (if \<not> any_in common_pass_fields (build_inputs (form_inputs form) [])
           \<and> (case find_all_type ''password'' form of [] \<Rightarrow> False
               | first # _ \<Rightarrow> inp_name first = Some c)
        then Some (password args)
        else if \<not> any_in common_user_fields (build_inputs (form_inputs form) [])
           \<and> (case find_all_type ''text'' form of [] \<Rightarrow> False
               | first # _ \<Rightarrow> inp_name first = Some c)
        then Some (username args)
        else dict_get (build_inputs (form_inputs form) []) (Some c))"
    and "dict_get (inject_named common_pass_fields (password args)
            (inject_named common_user_fields (username args)
              (build_inputs (form_inputs form) []))) (Some c)
         = dict_get (build_inputs (form_inputs form) []) (Some c)"
proof -
  let ?built = "build_inputs (form_inputs form) []"
  let ?d2 = "inject_named common_pass_fields (password args)
            (inject_named common_user_fields (username args) ?built)"
  let ?d3 = "inject_by_type common_user_fields ''text'' form (username args) ?d2"
  from find_csrf_name_Some [OF assms] have "c \<in> set csrf_name_candidates" by simp
  then have nu: "Some c \<notin> Some ` set common_user_fields"
    and np: "Some c \<notin> Some ` set common_pass_fields"
    by (auto simp: csrf_name_candidates_def common_user_fields_def common_pass_fields_def)
  show d2: "dict_get ?d2 (Some c) = dict_get ?built (Some c)"
    by (simp add: inject_named_other [OF nu] inject_named_other [OF np])
  have keys: "\<forall>inp \<in> set (form_inputs form). truthy (inp_name inp) \<longrightarrow> dict_has (inp_name inp) ?d2"
    by (auto simp: dict_has_inject_named dict_has_build_inputs)
  have au: "any_in common_user_fields ?d2 = any_in common_user_fields ?built"
    and ap2: "any_in common_pass_fields ?d2 = any_in common_pass_fields ?built"
    by (simp_all add: any_in_inject_named)
  have "[] \<notin> set common_pass_fields" by (simp add: common_pass_fields_def)
  from any_in_inject_by_type [OF keys this]
  have ap: "any_in common_pass_fields ?d3 = any_in common_pass_fields ?built"
    by (simp add: ap2)
  have "snd (field_heuristic args form)
      = inject_by_type common_pass_fields ''password'' form (password args) ?d3"
    by (simp add: field_heuristic_def inject_credentials_def Let_def)
  then show "dict_get (snd (field_heuristic args form)) (Some c) =
       (if \<not> any_in common_pass_fields ?built
           \<and> (case find_all_type ''password'' form of [] \<Rightarrow> False
               | first # _ \<Rightarrow> inp_name first = Some c)
        then Some (password args)
        else if \<not> any_in common_user_fields ?built
           \<and> (case find_all_type ''text'' form of [] \<Rightarrow> False
               | first # _ \<Rightarrow> inp_name first = Some c)
        then Some (username args)
        else dict_get ?built (Some c))"
    by (simp add: dict_get_inject_by_type ap au d2)
qed

text \<open>C2, as the claim states it, fails: on a form whose first input of type
  \<open>text\<close> is named \<open>token\<close> and which has no input under a user-name candidate,
  the scan finds \<open>token\<close>, its default is \<open>tok123\<close>, and the fallback submits the
  user name \<open>alice\<close> under it.\<close>

theorem csrf_value_overwritten_by_fallback:
  "find_csrf_name csrf_name_candidates (build_inputs (form_inputs token_form) [])
     = Some ''token''
   \<and> dict_get (build_inputs (form_inputs token_form) []) (Some ''token'') = Some ''tok123''
   \<and> dict_get (snd (field_heuristic demo_args token_form)) (Some ''token'') = Some ''alice''
   \<and> out_requests (main (demo_world (Inr (''<html>'', [])) (Some token_form)
         (Inr (''Welcome'', []))) demo_args)
       = [SessionGet ''http://host/login'' None,
          SessionPost ''http://host/login''
            [(Some ''token'', ''alice''), (Some ''password'', ''s3cret'')]]"
  by (simp add: run_defs)

text \<open>C2, amended: when the scan finds a token name, the two named-candidate loops
  leave the value under it as it was built, and the value submitted under it is that
  default unless the fallback by type selects an input of that very name: when no
  password candidate is a key and the first input of type \<open>password\<close> carries the name,
  the password is submitted under it; otherwise, when no user-name candidate is a key and
  the first input of type \<open>text\<close> carries the name, the user name is.\<close>

theorem csrf_value_kept_unless_fallback:
  assumes "send w [] (fetch_request args) = Inr (text, jar)"
    and "soup_find_form w text = Some form"
    and "find_csrf_name csrf_name_candidates (build_inputs (form_inputs form) []) = Some c"
  shows "\<exists>payload.
      out_requests (main w args)
        = [fetch_request args,
           submit_request (choose_method form) (choose_action args form) payload]
    \<and> dict_get (inject_named common_pass_fields (password args)
          (inject_named common_user_fields (username args)
            (build_inputs (form_inputs form) []))) (Some c)
        = dict_get (build_inputs (form_inputs form) []) (Some c)
    \<and> dict_get payload (Some c) =
       (if \<not> any_in common_pass_fields (build_inputs (form_inputs form) [])
           \<and> (case find_all_type ''password'' form of [] \<Rightarrow> False
               | first # _ \<Rightarrow> inp_name first = Some c)
        then Some (password args)
        else if \<not> any_in common_user_fields (build_inputs (form_inputs form) [])
           \<and> (case find_all_type ''text'' form of [] \<Rightarrow> False
               | first # _ \<Rightarrow> inp_name first = Some c)
        then Some (username args)
        else dict_get (build_inputs (form_inputs form) []) (Some c))"
  using main_requests [OF assms(1,2)] payload_at_csrf_name [OF assms(3)] by blast

theorem csrf_value_kept_unless_fallback_witness:
  "find_csrf_name csrf_name_candidates (build_inputs (form_inputs demo_form) [])
     = Some ''_csrf''
   \<and> dict_get (build_inputs (form_inputs demo_form) []) (Some ''_csrf'') = Some ''tok123''
   \<and> (\<exists>payload.
        out_requests (main (demo_world (Inr (''<html>'', [])) (Some demo_form)
           (Inr (''Welcome'', []))) demo_args)
          = [SessionGet ''http://host/login'' None, SessionPost ''/session'' payload]
        \<and> dict_get payload (Some ''_csrf'') = Some ''tok123'')"
proof -
  let ?w = "demo_world (Inr (''<html>'', [])) (Some demo_form) (Inr (''Welcome'', []))"
  have h1: "send ?w [] (fetch_request demo_args) = Inr (''<html>'', [])"
    and h2: "soup_find_form ?w ''<html>'' = Some demo_form"
    and h3: "find_csrf_name csrf_name_candidates (build_inputs (form_inputs demo_form) [])
       = Some ''_csrf''"
    and built: "dict_get (build_inputs (form_inputs demo_form) []) (Some ''_csrf'')
       = Some ''tok123''"
    and users: "any_in common_user_fields (build_inputs (form_inputs demo_form) [])"
    and passes: "any_in common_pass_fields (build_inputs (form_inputs demo_form) [])"
    by (simp_all add: run_defs)
  from csrf_value_kept_unless_fallback [OF h1 h2 h3] obtain payload where
    "out_requests (main ?w demo_args)
        = [fetch_request demo_args,
           submit_request (choose_method demo_form) (choose_action demo_args demo_form)
             payload]"
    and "dict_get payload (Some ''_csrf'') = Some ''tok123''"
    by (auto simp: users passes built)
  then have "out_requests (main ?w demo_args)
          = [SessionGet ''http://host/login'' None, SessionPost ''/session'' payload]
        \<and> dict_get payload (Some ''_csrf'') = Some ''tok123''"
    by (simp add: fetch_request_def submit_request_def choose_method_def choose_action_def
        py_or_def demo_form_def demo_args_def lower_def char_lower_def)
  with h3 built show ?thesis by blast
qed

subsection \<open>The fallback on an input without a name\<close>

text \<open>C3 says that a fallback which selects an input without a \<open>name\<close> leaves the
  field mapping unchanged. The script assigns \<open>inputs[name]\<close> with \<open>name\<close> being
  \<open>None\<close>: on a form whose text box and password box are unnamed, the mapping is built
  empty, the fallback for the user name adds the key \<open>None\<close> holding the user name, the
  fallback for the password overwrites that entry with the password, and the payload
  submitted is the one entry under \<open>None\<close>.\<close>

theorem unnamed_fallback_adds_None_key:
  "build_inputs (form_inputs unnamed_form) [] = []
   \<and> map inp_name (find_all_type ''text'' unnamed_form) = [None]
   \<and> map inp_name (find_all_type ''password'' unnamed_form) = [None]
   \<and> inject_by_type common_user_fields ''text'' unnamed_form ''alice'' []
       = [(None, ''alice'')]
   \<and> inject_by_type common_pass_fields ''password'' unnamed_form ''s3cret''
         [(None, ''alice'')]
       = [(None, ''s3cret'')]
   \<and> out_requests (main (demo_world (Inr (''<html>'', [])) (Some unnamed_form)
         (Inr (''Welcome'', []))) demo_args)
       = [SessionGet ''http://host/login'' None,
          SessionPost ''http://host/login'' [(None, ''s3cret'')]]"
  by (simp add: run_defs)

subsection \<open>The method of the submission\<close>

text \<open>C7: the method is the form's \<open>method\<close> attribute in lower case, \<open>post\<close> when the
  form has no such attribute. A run that reaches the submission issues, after the fetch,
  exactly one request: \<open>session.post\<close> with the field mapping as \<open>data\<close> when the
  attribute is absent or reads \<open>post\<close> in lower case, and otherwise \<open>session.get\<close>
  with the field mapping as \<open>params\<close>, never as a body.\<close>

theorem submission_method:
  assumes "send w [] (fetch_request args) = Inr (text, jar)"
    and "soup_find_form w text = Some form"
  shows "(form_method form = None \<longrightarrow>
            out_requests (main w args)
              = [fetch_request args,
                 SessionPost (choose_action args form) (snd (field_heuristic args form))])
       \<and> (\<forall>m. form_method form = Some m \<and> lower m = ''post'' \<longrightarrow>
            out_requests (main w args)
              = [fetch_request args,
                 SessionPost (choose_action args form) (snd (field_heuristic args form))])
       \<and> (\<forall>m. form_method form = Some m \<and> lower m \<noteq> ''post'' \<longrightarrow>
            out_requests (main w args)
              = [fetch_request args,
                 SessionGet (choose_action args form)
                   (Some (snd (field_heuristic args form)))])"
  unfolding main_requests [OF assms]
  by (auto simp: submit_request_def choose_method_def lower_def char_lower_def)

theorem submission_method_witness:
  "form_method search_form = Some ''GET'' \<and> lower ''GET'' = ''get''
   \<and> out_requests (main (demo_world (Inr (''<html>'', [])) (Some search_form)
         (Inr (''Welcome'', []))) demo_args)
       = [SessionGet ''http://host/login'' None,
          SessionGet ''http://host/login'' (Some [(Some ''q'', ''alice'')])]
   \<and> form_method demo_form = Some ''POST'' \<and> lower ''POST'' = ''post''
   \<and> out_requests (main (demo_world (Inr (''<html>'', [])) (Some demo_form)
         (Inr (''Welcome'', []))) demo_args)
       = [SessionGet ''http://host/login'' None,
          SessionPost ''/session''
            [(Some ''_csrf'', ''tok123''), (Some ''username'', ''alice''),
             (Some ''password'', ''s3cret'')]]
   \<and> form_method token_form = None
   \<and> out_requests (main (demo_world (Inr (''<html>'', [])) (Some token_form)
         (Inr (''Welcome'', []))) demo_args)
       = [SessionGet ''http://host/login'' None,
          SessionPost ''http://host/login''
            [(Some ''token'', ''alice''), (Some ''password'', ''s3cret'')]]"
proof -
  have fetched: "send (demo_world (Inr (''<html>'', [])) (Some form) (Inr (''Welcome'', [])))
      [] (fetch_request demo_args) = Inr (''<html>'', [])"
    and found: "soup_find_form (demo_world (Inr (''<html>'', [])) (Some form)
      (Inr (''Welcome'', []))) ''<html>'' = Some form"
    for form
    by (simp_all add: run_defs)
  note run = submission_method [OF fetched found]
  have m: "form_method search_form = Some ''GET''" "lower ''GET'' = ''get''"
    "form_method demo_form = Some ''POST''" "lower ''POST'' = ''post''"
    "form_method token_form = None"
    by (simp_all add: run_defs)
  have payloads:
    "fetch_request demo_args = SessionGet ''http://host/login'' None"
    "choose_action demo_args search_form = ''http://host/login''"
    "snd (field_heuristic demo_args search_form) = [(Some ''q'', ''alice'')]"
    "choose_action demo_args demo_form = ''/session''"
    "snd (field_heuristic demo_args demo_form)
      = [(Some ''_csrf'', ''tok123''), (Some ''username'', ''alice''),
         (Some ''password'', ''s3cret'')]"
    "choose_action demo_args token_form = ''http://host/login''"
    "snd (field_heuristic demo_args token_form)
      = [(Some ''token'', ''alice''), (Some ''password'', ''s3cret'')]"
    by (simp_all add: run_defs)
  from run [of search_form] run [of demo_form] run [of token_form] m
  show ?thesis by (simp add: payloads)
qed

subsection \<open>The target of the submission\<close>

text \<open>C9, as the claim states it, fails: with no \<open>--action\<close> and a form that declares
  \<open>action=""\<close>, the form has an \<open>action\<close> attribute, yet the submission does not go
  to it (the empty string) but to the login page URL.\<close>

theorem empty_form_action_goes_to_login_page:
  "action demo_args = None
   \<and> form_action search_form = Some []
   \<and> choose_action demo_args search_form = ''http://host/login''
   \<and> choose_action demo_args search_form \<noteq> []
   \<and> out_requests (main (demo_world (Inr (''<html>'', [])) (Some search_form)
         (Inr (''Welcome'', []))) demo_args)
       = [SessionGet ''http://host/login'' None,
          SessionGet ''http://host/login'' (Some [(Some ''q'', ''alice'')])]"
  by (simp add: run_defs)

text \<open>C9, amended: the target of the submission is the \<open>--action\<close> override when it
  is given and not empty; otherwise the form's \<open>action\<close> attribute when the form has one
  and it is not empty; otherwise the URL of the login page.\<close>

theorem submission_target:
  assumes "send w [] (fetch_request args) = Inr (text, jar)"
    and "soup_find_form w text = Some form"
  shows "\<exists>url.
      out_requests (main w args)
        = [fetch_request args,
           submit_request (choose_method form) url (snd (field_heuristic args form))]
    \<and> (\<forall>a. action args = Some a \<and> a \<noteq> [] \<longrightarrow> url = a)
    \<and> ((action args = None \<or> action args = Some []) \<longrightarrow>
          (\<forall>b. form_action form = Some b \<and> b \<noteq> [] \<longrightarrow> url = b))
    \<and> ((action args = None \<or> action args = Some [])
          \<and> (form_action form = None \<or> form_action form = Some []) \<longrightarrow>
          url = login_page args)"
  using main_requests [OF assms]
  by (auto simp: choose_action_def py_or_def)

theorem submission_target_witness:
  "action override_args = Some ''http://host/auth''
   \<and> out_requests (main (demo_world (Inr (''<html>'', [])) (Some demo_form)
         (Inr (''Welcome'', []))) override_args)
       = [SessionGet ''http://host/login'' None,
          SessionPost ''http://host/auth''
            [(Some ''_csrf'', ''tok123''), (Some ''username'', ''alice''),
             (Some ''password'', ''s3cret'')]]
   \<and> action demo_args = None \<and> form_action demo_form = Some ''/session''
   \<and> out_requests (main (demo_world (Inr (''<html>'', [])) (Some demo_form)
         (Inr (''Welcome'', []))) demo_args)
       = [SessionGet ''http://host/login'' None,
          SessionPost ''/session''
            [(Some ''_csrf'', ''tok123''), (Some ''username'', ''alice''),
             (Some ''password'', ''s3cret'')]]
   \<and> form_action search_form = Some []
   \<and> out_requests (main (demo_world (Inr (''<html>'', [])) (Some search_form)
         (Inr (''Welcome'', []))) demo_args)
       = [SessionGet ''http://host/login'' None,
          SessionGet ''http://host/login'' (Some [(Some ''q'', ''alice'')])]"
proof -
  have fetched: "send (demo_world (Inr (''<html>'', [])) (Some form) (Inr (''Welcome'', [])))
      [] (fetch_request demo_args) = Inr (''<html>'', [])"
    and fetched': "send (demo_world (Inr (''<html>'', [])) (Some form) (Inr (''Welcome'', [])))
      [] (fetch_request override_args) = Inr (''<html>'', [])"
    and found: "soup_find_form (demo_world (Inr (''<html>'', [])) (Some form)
      (Inr (''Welcome'', []))) ''<html>'' = Some form"
    for form
    by (simp_all add: run_defs)
  have a: "action override_args = Some ''http://host/auth''" "action demo_args = None"
    "form_action demo_form = Some ''/session''" "form_action search_form = Some []"
    "login_page demo_args = ''http://host/login''"
    by (simp_all add: run_defs)
  have payloads:
    "fetch_request demo_args = SessionGet ''http://host/login'' None"
    "fetch_request override_args = SessionGet ''http://host/login'' None"
    "choose_method demo_form = ''post''" "choose_method search_form = ''get''"
    "snd (field_heuristic demo_args search_form) = [(Some ''q'', ''alice'')]"
    "snd (field_heuristic demo_args demo_form)
      = [(Some ''_csrf'', ''tok123''), (Some ''username'', ''alice''),
         (Some ''password'', ''s3cret'')]"
    "snd (field_heuristic override_args demo_form)
      = [(Some ''_csrf'', ''tok123''), (Some ''username'', ''alice''),
         (Some ''password'', ''s3cret'')]"
    by (simp_all add: run_defs)
  from submission_target [OF fetched' found, of demo_form] a
  have 1: "out_requests (main (demo_world (Inr (''<html>'', [])) (Some demo_form)
         (Inr (''Welcome'', []))) override_args)
       = [SessionGet ''http://host/login'' None,
          SessionPost ''http://host/auth''
            [(Some ''_csrf'', ''tok123''), (Some ''username'', ''alice''),
             (Some ''password'', ''s3cret'')]]"
    by (auto simp: payloads submit_request_def)
  from submission_target [OF fetched found, of demo_form] a
  have 2: "out_requests (main (demo_world (Inr (''<html>'', [])) (Some demo_form)
         (Inr (''Welcome'', []))) demo_args)
       = [SessionGet ''http://host/login'' None,
          SessionPost ''/session''
            [(Some ''_csrf'', ''tok123''), (Some ''username'', ''alice''),
             (Some ''password'', ''s3cret'')]]"
    by (auto simp: payloads submit_request_def)
  from submission_target [OF fetched found, of search_form] a
  have 3: "out_requests (main (demo_world (Inr (''<html>'', [])) (Some search_form)
         (Inr (''Welcome'', []))) demo_args)
       = [SessionGet ''http://host/login'' None,
          SessionGet ''http://host/login'' (Some [(Some ''q'', ''alice'')])]"
    by (auto simp: payloads submit_request_def)
  from 1 2 3 a show ?thesis by simp
qed

subsection \<open>The judgement of the answer\<close>

lemma contains_lower_iff:
  "sublist x (lower body) \<longleftrightarrow> (\<exists>ps m ss. body = ps @ m @ ss \<and> lower m = x)"
  by (simp add: lower_def sublist_map_iff)

lemma main_reaches_classify:
  assumes "send w [] (fetch_request args) = Inr (text, jar)"
    and "soup_find_form w text = Some form"
    and "send w jar (submit_request (choose_method form) (choose_action args form)
           (snd (field_heuristic args form))) = Inr (body, cookies)"
  shows "main w args
     = classify [fetch_request args,
                 submit_request (choose_method form) (choose_action args form)
                   (snd (field_heuristic args form))] cookies body"
  using assms by (simp add: main_def Let_def case_prod_beta)

text \<open>C4: a run whose fetch, form lookup and submission succeed is judged in a fixed
  order. If the session holds cookies, it prints the one line \<open>OK cookie=\<close> followed by
  the cookies as \<open>key=value\<close> joined by \<open>"; "\<close>, and exits 0. Otherwise, if some piece
  of the response body reads \<open>logout\<close> or \<open>dashboard\<close> once put in lower case, it
  prints the one line \<open>OK cookie=\<close> and exits 0. Otherwise it prints nothing to standard
  output, one error line to standard error, and exits 5.\<close>

theorem result_classifier:
  assumes "send w [] (fetch_request args) = Inr (text, jar)"
    and "soup_find_form w text = Some form"
    and "send w jar (submit_request (choose_method form) (choose_action args form)
           (snd (field_heuristic args form))) = Inr (body, cookies)"
  shows "(cookies \<noteq> [] \<longrightarrow>
            out_stdout (main w args)
              = [''OK cookie='' @ join ''; '' (map (\<lambda>(k, v). k @ ''='' @ v) cookies)]
          \<and> out_stderr (main w args) = [] \<and> out_exit (main w args) = 0)
       \<and> (cookies = []
            \<and> (\<exists>ps m ss. body = ps @ m @ ss \<and> (lower m = ''logout'' \<or> lower m = ''dashboard''))
          \<longrightarrow> out_stdout (main w args) = [''OK cookie='']
            \<and> out_stderr (main w args) = [] \<and> out_exit (main w args) = 0)
       \<and> (cookies = []
            \<and> \<not> (\<exists>ps m ss. body = ps @ m @ ss \<and> (lower m = ''logout'' \<or> lower m = ''dashboard''))
          \<longrightarrow> out_stdout (main w args) = []
            \<and> out_stderr (main w args) = [''ERROR: Login likely failed'']
            \<and> out_exit (main w args) = 5)"
proof -
  have "(\<exists>ps m ss. body = ps @ m @ ss \<and> (lower m = ''logout'' \<or> lower m = ''dashboard''))
     \<longleftrightarrow> sublist ''logout'' (lower body) \<or> sublist ''dashboard'' (lower body)"
    unfolding contains_lower_iff by blast
  then show ?thesis
    unfolding main_reaches_classify [OF assms]
    by (simp add: classify_def cookie_str_def)
qed

theorem result_classifier_witness:
  "out_stdout (main (demo_world (Inr (''<html>'', [])) (Some demo_form)
       (Inr (''Welcome'', [(''sessionid'', ''abc123'')]))) demo_args)
     = [''OK cookie=sessionid=abc123'']
   \<and> out_exit (main (demo_world (Inr (''<html>'', [])) (Some demo_form)
       (Inr (''Welcome'', [(''sessionid'', ''abc123'')]))) demo_args) = 0
   \<and> out_stdout (main (demo_world (Inr (''<html>'', [])) (Some demo_form)
       (Inr (''Welcome'', [(''a'', ''1''), (''b'', ''2'')]))) demo_args)
     = [''OK cookie=a=1; b=2'']
   \<and> out_stdout (main (demo_world (Inr (''<html>'', [])) (Some demo_form)
       (Inr (''<a>My Dashboard</a>'', []))) demo_args)
     = [''OK cookie='']
   \<and> out_exit (main (demo_world (Inr (''<html>'', [])) (Some demo_form)
       (Inr (''<a>My Dashboard</a>'', []))) demo_args) = 0
   \<and> out_stdout (main (demo_world (Inr (''<html>'', [])) (Some demo_form)
       (Inr (''Invalid credentials'', []))) demo_args) = []
   \<and> out_stderr (main (demo_world (Inr (''<html>'', [])) (Some demo_form)
       (Inr (''Invalid credentials'', []))) demo_args) = [''ERROR: Login likely failed'']
   \<and> out_exit (main (demo_world (Inr (''<html>'', [])) (Some demo_form)
       (Inr (''Invalid credentials'', []))) demo_args) = 5"
proof -
  let ?req = "submit_request (choose_method demo_form) (choose_action demo_args demo_form)
           (snd (field_heuristic demo_args demo_form))"
  have fetched: "send (demo_world (Inr (''<html>'', [])) (Some demo_form) reply) []
      (fetch_request demo_args) = Inr (''<html>'', [])"
    and found: "soup_find_form (demo_world (Inr (''<html>'', [])) (Some demo_form) reply)
      ''<html>'' = Some demo_form"
    and sent: "send (demo_world (Inr (''<html>'', [])) (Some demo_form) (Inr (b, c))) [] ?req
      = Inr (b, c)"
    for reply b c
    by (simp_all add: run_defs)
  have one: "join ''; '' (map (\<lambda>(k, v). k @ ''='' @ v) [(''sessionid'', ''abc123'')])
      = ''sessionid=abc123''"
    and two: "join ''; '' (map (\<lambda>(k, v). k @ ''='' @ v) [(''a'', ''1''), (''b'', ''2'')])
      = ''a=1; b=2''"
    by simp_all
  have marker: "\<exists>ps m ss. ''<a>My Dashboard</a>'' = ps @ m @ ss
      \<and> (lower m = ''logout'' \<or> lower m = ''dashboard'')"
  proof (intro exI conjI)
    show "''<a>My Dashboard</a>'' = ''<a>My '' @ ''Dashboard'' @ ''</a>''" by simp
    show "lower ''Dashboard'' = ''logout'' \<or> lower ''Dashboard'' = ''dashboard''"
      by (simp add: lower_def char_lower_def)
  qed
  have no_marker: "\<not> (\<exists>ps m ss. ''Invalid credentials'' = ps @ m @ ss
      \<and> (lower m = ''logout'' \<or> lower m = ''dashboard''))"
  proof -
    have "\<not> sublist ''logout'' (lower ''Invalid credentials'')"
      and "\<not> sublist ''dashboard'' (lower ''Invalid credentials'')"
      by (simp_all add: lower_def char_lower_def sublist_code)
    then show ?thesis unfolding contains_lower_iff by blast
  qed
  from result_classifier [OF fetched found
      sent [where b = "''Welcome''" and c = "[(''sessionid'', ''abc123'')]"]]
    result_classifier [OF fetched found
      sent [where b = "''Welcome''" and c = "[(''a'', ''1''), (''b'', ''2'')]"]]
    result_classifier [OF fetched found
      sent [where b = "''<a>My Dashboard</a>''" and c = "[]"]]
    result_classifier [OF fetched found
      sent [where b = "''Invalid credentials''" and c = "[]"]]
    marker no_marker
  show ?thesis by (simp add: one two)
qed

subsection \<open>Failure of the fetch\<close>

text \<open>C5: if the fetch of the login page raises, the run prints one error line to
  standard error and exits with code 2, and the only request it ever issued is the fetch
  itself: no POST, and no GET that carries a field mapping.\<close>

theorem fetch_error_exits_2:
  assumes "send w [] (fetch_request args) = Inl e"
  shows "out_exit (main w args) = 2
    \<and> out_stderr (main w args) = [''ERROR: Failed to fetch login page: '' @ e]
    \<and> out_stdout (main w args) = []
    \<and> out_requests (main w args) = [SessionGet (login_page args) None]
    \<and> (\<forall>r \<in> set (out_requests (main w args)).
          (\<forall>url d. r \<noteq> SessionPost url d) \<and> (\<forall>url d. r \<noteq> SessionGet url (Some d)))"
  using assms by (simp add: main_def fetch_request_def)

theorem fetch_error_exits_2_witness:
  "send (demo_world (Inl ''connection refused'') (Some demo_form) (Inr (''dashboard'', [])))
        [] (fetch_request demo_args) = Inl ''connection refused''
   \<and> out_exit (main (demo_world (Inl ''connection refused'') (Some demo_form)
         (Inr (''dashboard'', []))) demo_args) = 2
   \<and> out_stderr (main (demo_world (Inl ''connection refused'') (Some demo_form)
         (Inr (''dashboard'', []))) demo_args)
       = [''ERROR: Failed to fetch login page: connection refused'']
   \<and> out_requests (main (demo_world (Inl ''connection refused'') (Some demo_form)
         (Inr (''dashboard'', []))) demo_args) = [SessionGet ''http://host/login'' None]"
proof -
  let ?w = "demo_world (Inl ''connection refused'') (Some demo_form) (Inr (''dashboard'', []))"
  have h: "send ?w [] (fetch_request demo_args) = Inl ''connection refused''"
    by (simp add: demo_world_def fetch_request_def demo_args_def)
  from fetch_error_exits_2 [OF h] h show ?thesis
    by (simp add: demo_args_def)
qed

subsection \<open>A page without a form\<close>

text \<open>C6: if the fetched page has no form element, the run exits with code 3, prints
  the one line \<open>ERROR: No form found on login page\<close> to standard error, and prints
  nothing to standard output, so no line there begins with \<open>OK\<close>.\<close>

theorem no_form_exits_3:
  assumes "send w [] (fetch_request args) = Inr (text, jar)"
    and "soup_find_form w text = None"
  shows "out_exit (main w args) = 3
    \<and> out_stderr (main w args) = [''ERROR: No form found on login page'']
    \<and> out_stdout (main w args) = []
    \<and> (\<forall>l \<in> set (out_stdout (main w args)). \<not> prefix ''OK'' l)
    \<and> out_requests (main w args) = [fetch_request args]"
  using assms by (simp add: main_def)

theorem no_form_exits_3_witness:
  "send (demo_world (Inr (''<p>hello</p>'', [(''sid'', ''1'')])) None (Inr (''dashboard'', [])))
        [] (fetch_request demo_args) = Inr (''<p>hello</p>'', [(''sid'', ''1'')])
   \<and> soup_find_form (demo_world (Inr (''<p>hello</p>'', [(''sid'', ''1'')])) None
         (Inr (''dashboard'', []))) ''<p>hello</p>'' = None
   \<and> out_exit (main (demo_world (Inr (''<p>hello</p>'', [(''sid'', ''1'')])) None
         (Inr (''dashboard'', []))) demo_args) = 3
   \<and> out_stdout (main (demo_world (Inr (''<p>hello</p>'', [(''sid'', ''1'')])) None
         (Inr (''dashboard'', []))) demo_args) = []
   \<and> out_stderr (main (demo_world (Inr (''<p>hello</p>'', [(''sid'', ''1'')])) None
         (Inr (''dashboard'', []))) demo_args) = [''ERROR: No form found on login page'']"
proof -
  let ?w = "demo_world (Inr (''<p>hello</p>'', [(''sid'', ''1'')])) None (Inr (''dashboard'', []))"
  have h1: "send ?w [] (fetch_request demo_args) = Inr (''<p>hello</p>'', [(''sid'', ''1'')])"
    by (simp add: demo_world_def fetch_request_def demo_args_def)
  have h2: "soup_find_form ?w ''<p>hello</p>'' = None"
    by (simp add: demo_world_def)
  from no_form_exits_3 [OF h1 h2] h1 h2 show ?thesis
    by simp
qed

subsection \<open>The scan for a token name\<close>

text \<open>C10: the scan of lines 55 to 62 has no observable effect. For every world and
  every command line, the script and the script without the scan issue the same requests
  with the same payload, print the same lines and exit with the same code: the variable
  \<open>csrf_name\<close> is assigned and never read.\<close>

theorem csrf_scan_unobservable: "main w args = main_no_csrf w args"
  by (simp add: main_def main_no_csrf_def field_heuristic_def field_heuristic_no_csrf_def
      Let_def split: sum.split prod.split option.split)

theorem csrf_scan_unobservable_witness:
  "find_csrf_name csrf_name_candidates (build_inputs (form_inputs demo_form) []) = Some ''_csrf''
   \<and> main (demo_world (Inr (''<html>'', [])) (Some demo_form)
         (Inr (''Welcome'', [(''sessionid'', ''abc123'')]))) demo_args
     = main_no_csrf (demo_world (Inr (''<html>'', [])) (Some demo_form)
         (Inr (''Welcome'', [(''sessionid'', ''abc123'')]))) demo_args"
  using csrf_scan_unobservable [of "demo_world (Inr (''<html>'', [])) (Some demo_form)
         (Inr (''Welcome'', [(''sessionid'', ''abc123'')]))" demo_args]
  by (simp add: demo_form_def csrf_name_candidates_def truthy_def dict_has_def)

end
